theory Spec2Isabelle
  imports Main
begin

section \<open>The declaration tree\<close>

text \<open>
  The converter (\<^verbatim>\<open>src/src/converter.ts\<close>) walks the syntax tree that the TypeScript
  parser returns and writes Scala.js facade code to a \<^verbatim>\<open>CodeBlockWriter\<close>.  The parser
  and the writer are libraries; the converter's own code is what is modelled here.

  The tree is modelled by datatypes with one constructor per node kind that the converter
  distinguishes, and by records for the declarations.  \<^verbatim>\<open>getText()\<close> of a name node
  is the \<open>string\<close> stored in the node; a node that may be absent
  (\<^verbatim>\<open>node.type\<close>, \<^verbatim>\<open>node.name\<close> of a class or a function) is an \<open>option\<close>.
  An optional array that the converter reads as empty when it is absent
  (\<^verbatim>\<open>typeParameters\<close>, \<^verbatim>\<open>typeArguments\<close>, \<^verbatim>\<open>modifiers\<close>,
  \<^verbatim>\<open>heritageClauses\<close>) is a list.  Node kinds that go to a \<^verbatim>\<open>default\<close> branch are
  collected in one constructor.  A string is a list of bytes, so the functions on characters
  below are exact on ASCII text.
\<close>

text \<open>
  The literal of a literal type node, as \<^verbatim>\<open>convertLiteralType\<close> tells them apart;
  a numeric literal carries its source text.  \<open>NullLiteral\<close> is the literal of kind
  \<^verbatim>\<open>NullKeyword\<close>.
\<close>

datatype literal =
    TrueKeyword | FalseKeyword | StringLiteral string | NumericLiteral string
  | NullLiteral | OtherLiteral

text \<open>The operator of a type operator node, modifiers, and the kinds of type node
  that \<^verbatim>\<open>convertTypeToScala\<close> has no case for.\<close>

datatype operator = KeyOfKeyword | OtherOperator

datatype modifier =
    ExportKeyword | DeclareKeyword | AbstractKeyword | StaticKeyword
  | PrivateKeyword | ProtectedKeyword | PublicKeyword | ReadonlyKeyword | OtherModifier

datatype otherKind =
    UnknownKeyword | SymbolKeyword | BigIntKeyword | TupleType | TypeQuery | ConditionalType
  | MappedType | IndexedAccessType | TypePredicate | ConstructorType | TemplateLiteralType
  | ImportType | InferType | OtherKind nat

text \<open>
  Type nodes, parameters, type parameters and the members of interfaces and type literals.
  An index signature has exactly one parameter in the grammar; the node stores it
  (\<^verbatim>\<open>node.parameters[0]\<close>).
\<close>

datatype tsType =
    StringKeyword | NumberKeyword | BooleanKeyword | VoidKeyword | NullKeyword
  | UndefinedKeyword | AnyKeyword | ObjectKeyword | NeverKeyword | ThisKeyword | ThisType
  | TypeReference string "tsType list"
  | LiteralType literal
  | TypeLiteral "typeElement list"
  | FunctionType "parameter list" "tsType option"
  | ParenthesizedType tsType
  | ArrayType tsType
  | UnionType "tsType list"
  | IntersectionType "tsType list"
  | TypeOperator operator tsType
  | OtherType otherKind
and parameter =
    Parameter (parameterName: string) (parameterType: "tsType option") (dotDotDotToken: bool)
      (questionToken: bool)
and typeParameter =
    TypeParameter (tpName: string) (tpConstraint: "tsType option")
and typeElement =
    PropertySignature string "modifier list" "tsType option"
  | MethodSignature string "typeParameter list" "parameter list" "tsType option"
  | IndexSignature "modifier list" parameter "tsType option"
  | OtherTypeElement

text \<open>
  Class members.  A heritage clause keeps its keyword and the texts of the expressions of
  its types (\<^verbatim>\<open>t.expression.getText()\<close>).
\<close>

datatype classElement =
    PropertyDeclaration string "modifier list" "tsType option"
  | MethodDeclaration string "modifier list" "typeParameter list" "parameter list"
      "tsType option"
  | ConstructorDeclaration "modifier list" "parameter list"
  | OtherClassElement "modifier list"

datatype heritageToken = ExtendsKeyword | ImplementsKeyword

datatype heritageClause = HeritageClause (token: heritageToken) (clauseTypes: "string list")

text \<open>
  Declarations.  An enum is read through the names of its members only.  A variable
  declaration carries the \<^verbatim>\<open>const\<close> flag of the declaration list it belongs to
  (\<^verbatim>\<open>variable.parent.flags & ts.NodeFlags.Const\<close>).
\<close>

record classDeclaration =
  class_name :: "string option"
  class_modifiers :: "modifier list"
  class_typeParameters :: "typeParameter list"
  class_heritageClauses :: "heritageClause list"
  class_members :: "classElement list"

record interfaceDeclaration =
  interface_name :: string
  interface_modifiers :: "modifier list"
  interface_typeParameters :: "typeParameter list"
  interface_members :: "typeElement list"

record enumDeclaration =
  enum_name :: string
  enum_modifiers :: "modifier list"
  enum_members :: "string list"

record typeAliasDeclaration =
  alias_name :: string
  alias_modifiers :: "modifier list"
  alias_typeParameters :: "typeParameter list"
  alias_type :: tsType

record variableDeclaration =
  var_name :: string
  var_type :: "tsType option"
  var_parentConst :: bool

record functionDeclaration =
  function_name :: "string option"
  function_modifiers :: "modifier list"
  function_typeParameters :: "typeParameter list"
  function_parameters :: "parameter list"
  function_type :: "tsType option"

text \<open>
  The expression of an export assignment, the name of a module declaration (an identifier
  or a string literal) and statements.  The body of a module declaration is \<open>Some\<close> of
  its statements when it is a module block.
\<close>

datatype expression = Identifier string | OtherExpression

datatype moduleName = ModuleIdentifier string | ModuleStringLiteral string

datatype statement =
    ModuleDeclaration moduleName "modifier list" "statement list option"
  | ClassDeclaration classDeclaration
  | InterfaceDeclaration interfaceDeclaration
  | EnumDeclaration enumDeclaration
  | TypeAliasDeclaration typeAliasDeclaration
  | VariableStatement "modifier list" "variableDeclaration list"
  | FunctionDeclaration functionDeclaration
  | ExportDeclaration
  | ExportAssignment expression
  | ImportDeclaration
  | OtherStatement

section \<open>Strings and arrays of the host language\<close>

text \<open>\<^verbatim>\<open>Array.prototype.join\<close>.\<close>

fun join :: "string \<Rightarrow> string list \<Rightarrow> string" where
  "join sep [] = []"
| "join sep [x] = x"
| "join sep (x # y # ys) = x @ sep @ join sep (y # ys)"

text \<open>
  \<^verbatim>\<open>[...new Set(xs)]\<close>: a set of the host language iterates in insertion order, so
  the result keeps the first occurrence of every element.  The loop over \<open>seen\<close> in
  \<^verbatim>\<open>convertIntersectionType\<close> computes the same list.
\<close>

fun newSet :: "'a list \<Rightarrow> 'a list \<Rightarrow> 'a list" where
  "newSet seen [] = seen"
| "newSet seen (x # xs) = (if x \<in> set seen then newSet seen xs else newSet (seen @ [x]) xs)"

text \<open>The backquote, the double quote and the line feed.\<close>

definition backquote :: string where
  "backquote = [CHR 0x60]"

definition dquote :: string where
  "dquote = [CHR 0x22]"

definition newline :: string where
  "newline = [CHR 0x0A]"

text \<open>
  \<^verbatim>\<open>capitalize\<close> (lines 1024-1026):
  \<^verbatim>\<open>str.charAt(0).toUpperCase() + str.slice(1)\<close>.
\<close>

definition toUpperCase :: "char \<Rightarrow> char" where
  "toUpperCase c =
    (case map_of (zip ''abcdefghijklmnopqrstuvwxyz'' ''ABCDEFGHIJKLMNOPQRSTUVWXYZ'') c of
       Some u \<Rightarrow> u | None \<Rightarrow> c)"

definition capitalize :: "string \<Rightarrow> string" where
  "capitalize str = map toUpperCase (take 1 str) @ drop 1 str"

text \<open>\<^verbatim>\<open>String.prototype.trim\<close> and \<^verbatim>\<open>String.prototype.split\<close> on a
  separator of one character.\<close>

definition isWhiteSpace :: "char \<Rightarrow> bool" where
  "isWhiteSpace c = (c \<in> set [CHR 0x09, CHR 0x0A, CHR 0x0B, CHR 0x0C, CHR 0x0D, CHR 0x20])"

definition trim :: "string \<Rightarrow> string" where
  "trim s = rev (dropWhile isWhiteSpace (rev (dropWhile isWhiteSpace s)))"

fun split :: "char \<Rightarrow> string \<Rightarrow> string list" where
  "split sep [] = [[]]"
| "split sep (c # cs) =
    (if c = sep then [] # split sep cs
     else (case split sep cs of [] \<Rightarrow> [[c]] | part # parts \<Rightarrow> (c # part) # parts))"

text \<open>The character classes \<^verbatim>\<open>[a-zA-Z]\<close> and \<^verbatim>\<open>[0-9]\<close>.\<close>

definition isLetter :: "char \<Rightarrow> bool" where
  "isLetter c =
    (c \<in> set ''abcdefghijklmnopqrstuvwxyz'' \<or> c \<in> set ''ABCDEFGHIJKLMNOPQRSTUVWXYZ'')"

definition isDigit :: "char \<Rightarrow> bool" where
  "isDigit c = (c \<in> set ''0123456789'')"

text \<open>The test \<^verbatim>\<open>/^[a-zA-Z_][a-zA-Z0-9_]*$/\<close> of line 39: the grammar of a bare
  identifier.\<close>

fun matchesIdentifier :: "string \<Rightarrow> bool" where
  "matchesIdentifier [] = False"
| "matchesIdentifier (c # cs) =
    ((isLetter c \<or> c = CHR ''_'') \<and> list_all (\<lambda>d. isLetter d \<or> isDigit d \<or> d = CHR ''_'') cs)"

text \<open>
  \<^verbatim>\<open>paramType.replace(/^js\.Array\[(.+)\]$/, '$1')\<close> (lines 494 and 536): a string
  that starts with \<^verbatim>\<open>js.Array[\<close>, ends with \<^verbatim>\<open>]\<close> and has at least one character
  in between, none of them a line terminator, is replaced by what is in between.
\<close>

definition unwrapJsArray :: "string \<Rightarrow> string" where
  "unwrapJsArray s =
    (let inner = take (length s - 10) (drop 9 s)
     in if take 9 s = ''js.Array['' \<and> length s > 10 \<and> last s = CHR '']''
           \<and> list_all (\<lambda>c. c \<noteq> CHR 0x0A \<and> c \<noteq> CHR 0x0D) inner
        then inner else s)"

section \<open>The writer\<close>

text \<open>
  The converter never reads back what it has written to the main writer, so what it does is
  the sequence of calls it makes on it.  An emitter is modelled by the list of calls it
  makes, in order; the callback of \<^verbatim>\<open>block\<close> is the list of calls made inside it.
  \<open>GetIndentationLevel\<close> stands for
  \<^verbatim>\<open>const currentIndentLevel = writer.getIndentationLevel()\<close> and
  \<open>RestoreIndentationLevel\<close> for
  \<^verbatim>\<open>writer.setIndentationLevel(currentIndentLevel)\<close> in the same function.
\<close>

datatype writerCall =
    Write string
  | WriteLine string
  | NewLine
  | GetIndentationLevel
  | SetIndentationLevel nat
  | RestoreIndentationLevel
  | Block "writerCall list"

text \<open>
  The source has no \<^verbatim>\<open>throw\<close>.  One expression can raise at run time:
  \<^verbatim>\<open>func.name!.getText()\<close> (lines 916 and 992) on a function declaration without a
  name.  The exception leaves \<^verbatim>\<open>convertTsToScala\<close>, so an emitter that can reach that
  expression returns either the error or its list of calls.  \<open>concatResults\<close> runs a
  \<^verbatim>\<open>forEach\<close> whose body may raise.
\<close>

datatype error = TypeError

fun concatResults :: "(error + 'a list) list \<Rightarrow> error + 'a list" where
  "concatResults [] = Inr []"
| "concatResults (r # rs) =
    (case r of
       Inl e \<Rightarrow> Inl e
     | Inr xs \<Rightarrow> (case concatResults rs of Inl e \<Rightarrow> Inl e | Inr ys \<Rightarrow> Inr (xs @ ys)))"

text \<open>
  \<^verbatim>\<open>temp.toString()\<close> (line 352) of the temporary writer that
  \<^verbatim>\<open>writeInterfaceTrait\<close> hands to \<^verbatim>\<open>processInterfaceMember\<close>: that writer has no
  indentation and receives \<^verbatim>\<open>writeLine\<close> calls only, each of which adds its text and
  a line feed (the texts are taken to hold no carriage return, which the writer would
  drop before a line feed).
\<close>

fun toString :: "writerCall list \<Rightarrow> string" where
  "toString [] = []"
| "toString (WriteLine line # calls) = line @ newline @ toString calls"
| "toString (call # calls) = toString calls"

text \<open>
  Writing lines once: the closure \<^verbatim>\<open>emit\<close> of line 951 and the test on \<open>seen\<close> of
  lines 345 and 353.  A line is written unless it is in the set already; the set after the
  lines \<open>ls\<close> is \<open>newSet emitted ls\<close>.
\<close>

fun emit :: "string list \<Rightarrow> string list \<Rightarrow> writerCall list" where
  "emit emitted [] = []"
| "emit emitted (line # lines) =
    (if line \<in> set emitted then emit emitted lines
     else WriteLine line # emit (emitted @ [line]) lines)"

section \<open>The type mapper\<close>

text \<open>
  \<^verbatim>\<open>convertTypeToScala\<close> and its helpers (lines 659-885).  The tests
  \<^verbatim>\<open>ts.isLiteralTypeNode(t) && ts.isStringLiteral(t.literal)\<close> and
  \<^verbatim>\<open>ts.isLiteralTypeNode(t) && ts.isNumericLiteral(t.literal)\<close> of
  \<^verbatim>\<open>convertUnionType\<close> come first, with the source text of a numeric literal.
\<close>

fun isStringLiteralType :: "tsType \<Rightarrow> bool" where
  "isStringLiteralType (LiteralType (StringLiteral s)) = True"
| "isStringLiteralType _ = False"

fun isNumericLiteralType :: "tsType \<Rightarrow> bool" where
  "isNumericLiteralType (LiteralType (NumericLiteral s)) = True"
| "isNumericLiteralType _ = False"

fun numericLiteralText :: "tsType \<Rightarrow> string option" where
  "numericLiteralText (LiteralType (NumericLiteral text)) = Some text"
| "numericLiteralText _ = None"

text \<open>\<^verbatim>\<open>convertLiteralType\<close> (lines 705-721) on the literal of the node, and
  \<^verbatim>\<open>convertTypeOperator\<close> (lines 879-885) on its operator.\<close>

fun convertLiteralType :: "literal \<Rightarrow> string" where
  "convertLiteralType TrueKeyword = ''Boolean''"
| "convertLiteralType FalseKeyword = ''Boolean''"
| "convertLiteralType (StringLiteral s) = ''String''"
| "convertLiteralType (NumericLiteral text) = (if CHR ''.'' \<in> set text then ''Double'' else ''Int'')"
| "convertLiteralType NullLiteral = ''Null''"
| "convertLiteralType OtherLiteral = ''js.Any''"

fun convertTypeOperator :: "operator \<Rightarrow> string" where
  "convertTypeOperator KeyOfKeyword = ''String''"
| "convertTypeOperator _ = ''js.Any''"

text \<open>
  The lookup table of \<^verbatim>\<open>convertTypeReference\<close> (lines 737-754).  Every value is a
  non-empty string, so the test \<^verbatim>\<open>if (typeMapping[typeName])\<close> succeeds exactly on
  the listed keys.  Type names that are members of the prototype of the table object
  (\<^verbatim>\<open>constructor\<close>, \<^verbatim>\<open>toString\<close> and the like) are outside the model.
\<close>

definition typeMapping :: "(string \<times> string) list" where
  "typeMapping =
    [(''null'', ''Null''),
     (''undefined'', ''Unit''),
     (''Float32Array'', ''js.typedarray.Float32Array''),
     (''Float64Array'', ''js.typedarray.Float64Array''),
     (''Uint8Array'', ''js.typedarray.Uint8Array''),
     (''Uint16Array'', ''js.typedarray.Uint16Array''),
     (''Uint32Array'', ''js.typedarray.Uint32Array''),
     (''Int8Array'', ''js.typedarray.Int8Array''),
     (''Int16Array'', ''js.typedarray.Int16Array''),
     (''Int32Array'', ''js.typedarray.Int32Array''),
     (''Uint8ClampedArray'', ''js.typedarray.Uint8ClampedArray''),
     (''ArrayBuffer'', ''js.typedarray.ArrayBuffer''),
     (''ArrayBufferView'', ''js.typedarray.ArrayBufferView''),
     (''DataView'', ''js.typedarray.DataView''),
     (''ReadonlyArray'', ''js.Array''),
     (''PromiseLike'', ''js.Thenable'')]"

text \<open>
  The functions of the type mapper call each other as in the source: a helper receives the
  fields of its node and maps the children with \<^verbatim>\<open>convertTypeToScala\<close>.  The
  recursion descends into the children of a node, which is what the termination proof
  measures; the three lemmas give the size of a child.
\<close>

lemma size_parameterType [termination_simp]: "parameterType p = Some t \<Longrightarrow> size t < size p"
  by (cases p) simp

lemma size_list_member: "x \<in> set xs \<Longrightarrow> size x < Suc (size_list size xs)"
  by (simp add: size_list_estimation' less_Suc_eq_le)

lemma size_param_member:
  "x \<in> set ps \<Longrightarrow> parameterType x = Some t \<Longrightarrow> size t < size_list size ps"
  by (meson size_parameterType size_list_estimation)

function (sequential) convertTypeToScala :: "tsType \<Rightarrow> string"
and convertTypeReference :: "string \<Rightarrow> tsType list \<Rightarrow> string"
and convertFunctionType :: "parameter list \<Rightarrow> tsType option \<Rightarrow> string"
and convertArrayType :: "tsType \<Rightarrow> string"
and convertUnionType :: "tsType list \<Rightarrow> string"
and convertIntersectionType :: "tsType list \<Rightarrow> string"
where
  "convertTypeToScala StringKeyword = ''String''"
| "convertTypeToScala NumberKeyword = ''Double''"
| "convertTypeToScala BooleanKeyword = ''Boolean''"
| "convertTypeToScala VoidKeyword = ''Unit''"
| "convertTypeToScala NullKeyword = ''Null''"
| "convertTypeToScala UndefinedKeyword = ''Unit''"
| "convertTypeToScala AnyKeyword = ''js.Any''"
| "convertTypeToScala ObjectKeyword = ''js.Object''"
| "convertTypeToScala NeverKeyword = ''Nothing''"
| "convertTypeToScala ThisKeyword = ''this.type''"
| "convertTypeToScala ThisType = ''this.type''"
| "convertTypeToScala (TypeReference typeName typeArguments) =
     convertTypeReference typeName typeArguments"
| "convertTypeToScala (LiteralType literal) = convertLiteralType literal"
| "convertTypeToScala (TypeLiteral members) = ''js.Any''"
| "convertTypeToScala (FunctionType parameters type) = convertFunctionType parameters type"
| "convertTypeToScala (ParenthesizedType type) = convertTypeToScala type"
| "convertTypeToScala (ArrayType elementType) = convertArrayType elementType"
| "convertTypeToScala (UnionType types) = convertUnionType types"
| "convertTypeToScala (IntersectionType types) = convertIntersectionType types"
| "convertTypeToScala (TypeOperator operator type) = convertTypeOperator operator"
| "convertTypeToScala (OtherType kind) = ''js.Any''"
| "convertTypeReference typeName typeArguments =
    (let typeArgs = map convertTypeToScala typeArguments in
     if typeName = ''Array'' \<and> length typeArgs > 0
       then ''js.Array['' @ join '', '' typeArgs @ '']''
     else if typeName = ''ReadonlyArray'' \<and> length typeArgs > 0
       then ''js.Array[_ <: '' @ join '', '' typeArgs @ '']''
     else (case map_of typeMapping typeName of
       Some mapped \<Rightarrow>
         (if length typeArgs > 0 then mapped @ ''['' @ join '', '' typeArgs @ '']'' else mapped)
     | None \<Rightarrow>
         (if length typeArgs > 0 then typeName @ ''['' @ join '', '' typeArgs @ '']''
          else typeName)))"
| "convertFunctionType parameters type =
    (let params = map (\<lambda>p. case parameterType p of Some t \<Rightarrow> convertTypeToScala t
                                  | None \<Rightarrow> ''js.Any'') parameters;
         returnType = (case type of Some t \<Rightarrow> convertTypeToScala t | None \<Rightarrow> ''Unit'')
     in if length params = 0 then ''js.Function0['' @ returnType @ '']''
        else if length params = 1
          then ''js.Function1['' @ params ! 0 @ '', '' @ returnType @ '']''
        else if length params = 2
          then ''js.Function2['' @ params ! 0 @ '', '' @ params ! 1 @ '', '' @ returnType @ '']''
        else ''js.Function'')"
| "convertArrayType elementType = ''js.Array['' @ convertTypeToScala elementType @ '']''"
| "convertUnionType nodeTypes =
    (let types = map convertTypeToScala nodeTypes;
         allStringLiterals = list_all isStringLiteralType nodeTypes
     in if allStringLiterals then ''String''
     else
      (let allNumericLiterals = list_all isNumericLiteralType nodeTypes;
           allIntegers = list_all (\<lambda>t. case numericLiteralText t of
                            Some text \<Rightarrow> CHR ''.'' \<notin> set text | None \<Rightarrow> False) nodeTypes;
           allDoubles = list_all (\<lambda>t. case numericLiteralText t of
                            Some text \<Rightarrow> CHR ''.'' \<in> set text | None \<Rightarrow> False) nodeTypes
       in if allNumericLiterals \<and> allIntegers then ''Int''
       else if allNumericLiterals \<and> allDoubles then ''Double''
       else
        (let uniqueTypes = newSet [] types;
             otherTypes = filter (\<lambda>t. t \<noteq> ''Null'' \<and> t \<noteq> ''Unit'') uniqueTypes
         in if ''Null'' \<in> set uniqueTypes \<and> ''Unit'' \<in> set uniqueTypes \<and> length otherTypes = 1
            then otherTypes ! 0 @ '' | Null | Unit''
         else
          (let hasStringLiterals = list_ex isStringLiteralType nodeTypes;
               hasNonStringLiterals = list_ex (\<lambda>t. \<not> isStringLiteralType t) nodeTypes
           in if hasStringLiterals \<and> hasNonStringLiterals
              then join '' | '' (''String'' #
                     map convertTypeToScala (filter (\<lambda>t. \<not> isStringLiteralType t) nodeTypes))
              else join '' | '' uniqueTypes))))"
| "convertIntersectionType nodeTypes =
    (let types = map convertTypeToScala nodeTypes;
         uniqueTypes = newSet [] types
     in join '' with '' uniqueTypes)"
  by pat_completeness auto
termination
proof (relation "measure (\<lambda>x. case x of
      Inl (Inl t) \<Rightarrow> 2 * size t
    | Inl (Inr (Inl (n, args))) \<Rightarrow> 2 * size_list size args + 1
    | Inl (Inr (Inr (ps, r))) \<Rightarrow> 2 * (size_list size ps + size_option size r) + 1
    | Inr (Inl t) \<Rightarrow> 2 * size t + 1
    | Inr (Inr (Inl ts)) \<Rightarrow> 2 * size_list size ts + 1
    | Inr (Inr (Inr ts)) \<Rightarrow> 2 * size_list size ts + 1)")
qed (auto dest: size_list_member size_param_member)

section \<open>Names\<close>

text \<open>
  The list of reserved words (line 5) and the places where a name is quoted: the package
  clause of the file (lines 39-41) and the local constants \<^verbatim>\<open>safeModuleName\<close>
  (line 150), \<^verbatim>\<open>safeClassName\<close> (line 206), \<^verbatim>\<open>safeName\<close> (lines 477 and 516) and
  \<^verbatim>\<open>safeParamName\<close> (line 532).  The condition of the package clause associates to
  the left, as \<^verbatim>\<open>||\<close> does.
\<close>

definition SCALA_RESERVED_WORDS :: "string list" where
  "SCALA_RESERVED_WORDS =
    [''abstract'', ''case'', ''catch'', ''class'', ''def'', ''do'', ''else'', ''extends'',
     ''false'', ''final'', ''finally'', ''for'', ''forSome'', ''if'', ''implicit'', ''import'',
     ''lazy'', ''macro'', ''match'', ''new'', ''null'', ''object'', ''override'', ''package'',
     ''private'', ''protected'', ''return'', ''sealed'', ''super'', ''then'', ''this'',
     ''throw'', ''trait'', ''try'', ''true'', ''type'', ''val'', ''var'', ''while'', ''with'',
     ''yield'']"

definition quoted :: "string \<Rightarrow> string" where
  "quoted name = backquote @ name @ backquote"

definition packageDeclaration :: "string \<Rightarrow> string" where
  "packageDeclaration packageName =
    (if (CHR ''-'' \<in> set packageName \<or> \<not> matchesIdentifier packageName)
        \<or> packageName \<in> set SCALA_RESERVED_WORDS
     then ''package '' @ quoted packageName
     else ''package '' @ packageName)"

definition safeModuleName :: "string \<Rightarrow> string" where
  "safeModuleName moduleName =
    (if moduleName \<in> set SCALA_RESERVED_WORDS then quoted moduleName else moduleName)"

definition safeClassName :: "string \<Rightarrow> string" where
  "safeClassName className =
    (if className \<in> set SCALA_RESERVED_WORDS then quoted className else className)"

definition safeName :: "string \<Rightarrow> string" where
  "safeName name = (if name \<in> set SCALA_RESERVED_WORDS then quoted name else name)"

definition safeParamName :: "string \<Rightarrow> string" where
  "safeParamName paramName =
    (if paramName \<in> set SCALA_RESERVED_WORDS then quoted paramName else paramName)"

section \<open>Members\<close>

text \<open>
  Expressions that the source repeats in many functions:
  \<^item> \<open>convertOptionalType type fallback\<close> is
    \<^verbatim>\<open>node.type ? convertTypeToScala(node.type) : fallback\<close>;
  \<^item> \<open>typeParamString\<close> is the constant of that name computed from
    \<^verbatim>\<open>node.typeParameters\<close> (lines 209-215, 324-330, 480-486, 519-525, 919-925);
  \<^item> \<open>hasModifier\<close> and \<open>isPrivateOrProtected\<close> are the tests
    \<^verbatim>\<open>node.modifiers?.some(...)\<close>;
  \<^item> \<open>overridePrefix\<close> is the constant of lines 507 and 546;
  \<^item> \<open>plainParam\<close> is the rendering \<^verbatim>\<open>`${paramName}: ${paramType}`\<close> of a
    parameter of a constructor or a function (lines 272-276, 927-931, 968-972, 993-997).
\<close>

definition convertOptionalType :: "tsType option \<Rightarrow> string \<Rightarrow> string" where
  "convertOptionalType type fallback =
    (case type of Some t \<Rightarrow> convertTypeToScala t | None \<Rightarrow> fallback)"

definition typeParamString :: "typeParameter list \<Rightarrow> string" where
  "typeParamString typeParameters =
    (let typeParams = map (\<lambda>tp. tpName tp @
           (case tpConstraint tp of Some c \<Rightarrow> '' <: '' @ convertTypeToScala c | None \<Rightarrow> ''''))
           typeParameters
     in if length typeParams > 0 then ''['' @ join '', '' typeParams @ '']'' else '''')"

definition hasModifier :: "modifier \<Rightarrow> modifier list \<Rightarrow> bool" where
  "hasModifier kind modifiers = list_ex (\<lambda>m. m = kind) modifiers"

definition isPrivateOrProtected :: "modifier list \<Rightarrow> bool" where
  "isPrivateOrProtected modifiers =
    list_ex (\<lambda>m. m = PrivateKeyword \<or> m = ProtectedKeyword) modifiers"

definition overridePrefix :: "string \<Rightarrow> string" where
  "overridePrefix name = (if name \<in> set [''toString'', ''clone''] then ''override '' else '''')"

definition plainParam :: "parameter \<Rightarrow> string" where
  "plainParam p = parameterName p @ '': '' @ convertOptionalType (parameterType p) ''js.Any''"

text \<open>
  The member emitters (lines 414-566).  Each takes the fields of its node; the optional
  argument \<^verbatim>\<open>isAbstractClass\<close> is false when it is left out.
\<close>

definition processPropertyDeclaration ::
  "string \<Rightarrow> modifier list \<Rightarrow> tsType option \<Rightarrow> bool \<Rightarrow> writerCall list" where
  "processPropertyDeclaration name modifiers type isAbstractClass =
    (if isPrivateOrProtected modifiers then []
     else if hasModifier StaticKeyword modifiers then []
     else
      (let typeText = convertOptionalType type ''js.Any'';
           keyword = (if hasModifier ReadonlyKeyword modifiers then ''def'' else ''var'');
           implementation = (if isAbstractClass then '''' else '' = js.native'')
       in [WriteLine (keyword @ '' '' @ name @ '': '' @ typeText @ implementation)]))"

definition processPropertySignature ::
  "string \<Rightarrow> modifier list \<Rightarrow> tsType option \<Rightarrow> writerCall list" where
  "processPropertySignature name modifiers type =
    (let typeText = convertOptionalType type ''js.Any'';
         keyword = (if hasModifier ReadonlyKeyword modifiers then ''def'' else ''var'')
     in [WriteLine (keyword @ '' '' @ name @ '': '' @ typeText @ '' = js.native'')])"

definition processMethodDeclaration ::
  "string \<Rightarrow> modifier list \<Rightarrow> typeParameter list \<Rightarrow> parameter list \<Rightarrow> tsType option
    \<Rightarrow> bool \<Rightarrow> writerCall list" where
  "processMethodDeclaration name modifiers typeParameters parameters type isAbstractClass =
    (if isPrivateOrProtected modifiers then []
     else
      (let params = join '', '' (map (\<lambda>p.
             (let paramName = parameterName p;
                  paramType = convertOptionalType (parameterType p) ''js.Any''
              in if dotDotDotToken p then paramName @ '': '' @ unwrapJsArray paramType @ ''*''
                 else paramName @ '': '' @ paramType
                        @ (if questionToken p then '' = ???'' else ''''))) parameters);
           returnType = convertOptionalType type ''Unit'';
           implementation = (if isAbstractClass then '''' else '' = js.native'')
       in [WriteLine (overridePrefix name @ ''def '' @ safeName name
             @ typeParamString typeParameters @ ''('' @ params @ ''): '' @ returnType
             @ implementation)]))"

definition processMethodSignature ::
  "string \<Rightarrow> typeParameter list \<Rightarrow> parameter list \<Rightarrow> tsType option \<Rightarrow> writerCall list" where
  "processMethodSignature name typeParameters parameters type =
    (let params = join '', '' (map (\<lambda>p.
           (let paramName = parameterName p;
                paramType = convertOptionalType (parameterType p) ''js.Any''
            in if dotDotDotToken p
               then safeParamName paramName @ '': '' @ unwrapJsArray paramType @ ''*''
               else safeParamName paramName @ '': '' @ paramType
                      @ (if questionToken p then '' = ???'' else ''''))) parameters);
         returnType = convertOptionalType type ''js.Dynamic''
     in [WriteLine (overridePrefix name @ ''def '' @ safeName name
           @ typeParamString typeParameters @ ''('' @ params @ ''): '' @ returnType
           @ '' = js.native'')])"

definition processIndexSignature ::
  "modifier list \<Rightarrow> parameter \<Rightarrow> tsType option \<Rightarrow> writerCall list" where
  "processIndexSignature modifiers parameter type =
    (let indexType = convertOptionalType (parameterType parameter) ''js.Any'';
         returnType = convertOptionalType type ''js.Any'';
         paramName = parameterName parameter
     in [WriteLine ''@JSBracketAccess'',
         WriteLine (''def apply('' @ paramName @ '': '' @ indexType @ ''): '' @ returnType
           @ '' = js.native'')]
        @ (if \<not> hasModifier ReadonlyKeyword modifiers
           then [WriteLine ''@JSBracketAccess'',
                 WriteLine (''def update('' @ paramName @ '': '' @ indexType @ '', v: ''
                   @ returnType @ ''): Unit = js.native'')]
           else []))"

fun processClassMember :: "classElement \<Rightarrow> bool \<Rightarrow> writerCall list" where
  "processClassMember (PropertyDeclaration name modifiers type) isAbstractClass =
     processPropertyDeclaration name modifiers type isAbstractClass"
| "processClassMember (MethodDeclaration name modifiers typeParameters parameters type)
       isAbstractClass =
     processMethodDeclaration name modifiers typeParameters parameters type isAbstractClass"
| "processClassMember _ isAbstractClass = []"

fun processInterfaceMember :: "typeElement \<Rightarrow> writerCall list" where
  "processInterfaceMember (PropertySignature name modifiers type) =
     processPropertySignature name modifiers type"
| "processInterfaceMember (MethodSignature name typeParameters parameters type) =
     processMethodSignature name typeParameters parameters type"
| "processInterfaceMember (IndexSignature modifiers parameter type) =
     processIndexSignature modifiers parameter type"
| "processInterfaceMember OtherTypeElement = []"

section \<open>Classes\<close>

text \<open>
  \<^verbatim>\<open>processClassDeclaration\<close> (lines 199-317).  \<open>isStatic\<close> is the test of lines 225
  and 282.  \<open>heritageString\<close> is the constant of that name (lines 246-266).
  \<open>secondaryConstructor\<close> is the body of the loop over \<^verbatim>\<open>ctorDeclarations\<close> (lines
  270-278); \<open>staticProperty\<close> and \<open>staticMethod\<close> are the bodies of the loops of the
  companion object (lines 298-311).
\<close>

fun memberModifiers :: "classElement \<Rightarrow> modifier list" where
  "memberModifiers (PropertyDeclaration name modifiers type) = modifiers"
| "memberModifiers (MethodDeclaration name modifiers typeParameters parameters type) = modifiers"
| "memberModifiers (ConstructorDeclaration modifiers parameters) = modifiers"
| "memberModifiers (OtherClassElement modifiers) = modifiers"

definition isStatic :: "classElement \<Rightarrow> bool" where
  "isStatic member = hasModifier StaticKeyword (memberModifiers member)"

fun isMethodDeclaration :: "classElement \<Rightarrow> bool" where
  "isMethodDeclaration (MethodDeclaration name modifiers typeParameters parameters type) = True"
| "isMethodDeclaration _ = False"

fun isPropertyDeclaration :: "classElement \<Rightarrow> bool" where
  "isPropertyDeclaration (PropertyDeclaration name modifiers type) = True"
| "isPropertyDeclaration _ = False"

fun isConstructorDeclaration :: "classElement \<Rightarrow> bool" where
  "isConstructorDeclaration (ConstructorDeclaration modifiers parameters) = True"
| "isConstructorDeclaration _ = False"

fun constructorParameters :: "classElement \<Rightarrow> parameter list" where
  "constructorParameters (ConstructorDeclaration modifiers parameters) = parameters"
| "constructorParameters _ = []"

definition heritageString :: "heritageClause list \<Rightarrow> string" where
  "heritageString clauses =
    (let heritageTypes = concat (map clauseTypes clauses);
         extendsClause = find (\<lambda>h. token h = ExtendsKeyword) clauses
     in if length heritageTypes > 0
        then (case extendsClause of
                Some h \<Rightarrow>
                  (if length (clauseTypes h) > 0
                   then join '' with '' (hd (clauseTypes h) # tl heritageTypes)
                   else join '' with '' (hd heritageTypes # tl heritageTypes))
              | None \<Rightarrow> join '' with '' (hd heritageTypes # tl heritageTypes))
        else join '' with '' [''js.Object''])"

definition secondaryConstructor :: "classElement \<Rightarrow> writerCall list" where
  "secondaryConstructor cons =
    (if length (constructorParameters cons) = 0 then []
     else [WriteLine (''def this('' @ join '', '' (map plainParam (constructorParameters cons))
             @ '') = this()'')])"

fun staticProperty :: "classElement \<Rightarrow> writerCall list" where
  "staticProperty (PropertyDeclaration propName modifiers type) =
    (if isPrivateOrProtected modifiers then []
     else
      (let keyword = (if hasModifier ReadonlyKeyword modifiers then ''val'' else ''var'');
           typeText = convertOptionalType type ''js.Any''
       in [WriteLine (keyword @ '' '' @ propName @ '': '' @ typeText @ '' = js.native'')]))"
| "staticProperty _ = []"

fun staticMethod :: "classElement \<Rightarrow> writerCall list" where
  "staticMethod (MethodDeclaration name modifiers typeParameters parameters type) =
    (if isPrivateOrProtected modifiers then []
     else processMethodDeclaration name modifiers typeParameters parameters type False)"
| "staticMethod _ = []"

text \<open>\<^verbatim>\<open>node.name?.getText() || 'AnonymousClass'\<close> (line 200).\<close>

definition classNameText :: "classDeclaration \<Rightarrow> string" where
  "classNameText node =
    (case class_name node of
       Some n \<Rightarrow> (if n = [] then ''AnonymousClass'' else n)
     | None \<Rightarrow> ''AnonymousClass'')"

definition processClassDeclaration :: "classDeclaration \<Rightarrow> string \<Rightarrow> writerCall list" where
  "processClassDeclaration node namespace =
    (let className = classNameText node;
         isAbstract = hasModifier AbstractKeyword (class_modifiers node);
         staticMethods = filter (\<lambda>m. isStatic m \<and> isMethodDeclaration m) (class_members node);
         staticProperties = filter (\<lambda>m. isStatic m \<and> \<not> isMethodDeclaration m
                                       \<and> isPropertyDeclaration m) (class_members node);
         ctorDeclarations = filter isConstructorDeclaration (class_members node);
         hasParamCtor = list_ex (\<lambda>c. length (constructorParameters c) > 0) ctorDeclarations
     in [NewLine, GetIndentationLevel, SetIndentationLevel 0,
         Write ''@js.native'', NewLine,
         (if namespace \<noteq> []
          then Write (''@JSGlobal('' @ dquote @ namespace @ ''.'' @ className @ dquote @ '')'')
          else Write ''@JSGlobal''),
         NewLine,
         Write ((if isAbstract then ''abstract '' else '''') @ ''class '' @ safeClassName className
           @ typeParamString (class_typeParameters node)
           @ (if hasParamCtor then '' protected ()'' else '''')
           @ '' extends '' @ heritageString (class_heritageClauses node) @ '' ''),
         Block (concat (map secondaryConstructor ctorDeclarations)
           @ concat (map (\<lambda>member. if isStatic member then []
                                     else processClassMember member isAbstract)
               (class_members node))),
         NewLine]
        @ (if length staticMethods > 0 \<or> length staticProperties > 0
           then
            (let baseNs = (if namespace \<noteq> [] then last (split CHR ''.'' namespace) else [])
             in [Write ''@js.native'', NewLine,
                 (if baseNs \<noteq> []
                  then Write (''@JSGlobal('' @ dquote @ baseNs @ ''.'' @ className @ dquote
                         @ '')'')
                  else Write ''@JSGlobal''),
                 NewLine,
                 Write (''object '' @ safeClassName className @ '' extends js.Object ''),
                 Block (concat (map staticProperty staticProperties)
                   @ concat (map staticMethod staticMethods)),
                 NewLine])
           else [])
        @ [RestoreIndentationLevel])"

section \<open>Interfaces\<close>

text \<open>
  \<^verbatim>\<open>processInterfaceDeclaration\<close> (lines 319-412).  \<open>isInlineTypeLiteral\<close> is the
  test \<^verbatim>\<open>ts.isPropertySignature(m) && m.type && ts.isTypeLiteralNode(m.type)\<close>; the
  three functions after it read the name, the modifiers and the members of the literal of
  such a property.  \<open>traitMemberLine\<close> is the line that the loop of
  \<^verbatim>\<open>writeInterfaceTrait\<close> offers for a member (lines 339-357), \<open>nestedTrait\<close> the body
  of the loop over \<^verbatim>\<open>inlineTypeLiteralMembers\<close> (lines 374-406) and \<open>deepNestedTrait\<close>
  the body of the loop over \<^verbatim>\<open>deepInlineMembers\<close> (lines 396-403).
\<close>

fun isInlineTypeLiteral :: "typeElement \<Rightarrow> bool" where
  "isInlineTypeLiteral (PropertySignature name modifiers (Some (TypeLiteral members))) = True"
| "isInlineTypeLiteral _ = False"

fun propertyName :: "typeElement \<Rightarrow> string" where
  "propertyName (PropertySignature name modifiers type) = name"
| "propertyName _ = []"

fun propertyModifiers :: "typeElement \<Rightarrow> modifier list" where
  "propertyModifiers (PropertySignature name modifiers type) = modifiers"
| "propertyModifiers _ = []"

fun typeLiteralMembers :: "typeElement \<Rightarrow> typeElement list" where
  "typeLiteralMembers (PropertySignature name modifiers (Some (TypeLiteral members))) = members"
| "typeLiteralMembers _ = []"

definition traitMemberLine :: "string \<Rightarrow> typeElement \<Rightarrow> string" where
  "traitMemberLine interfaceName member =
    (if isInlineTypeLiteral member
     then
      (let propName = propertyName member;
           traitName = capitalize propName;
           keyword = (if hasModifier ReadonlyKeyword (propertyModifiers member)
                      then ''def'' else ''var'')
       in keyword @ '' '' @ propName @ '': '' @ interfaceName @ ''.'' @ traitName
            @ '' = js.native'')
     else trim (toString (processInterfaceMember member)))"

definition writeInterfaceTrait :: "interfaceDeclaration \<Rightarrow> writerCall list" where
  "writeInterfaceTrait node =
    [Write ''@js.native'', NewLine,
     Write (''trait '' @ interface_name node @ typeParamString (interface_typeParameters node)
       @ '' extends js.Object ''),
     Block (emit [] (map (traitMemberLine (interface_name node)) (interface_members node)))]"

definition deepNestedTrait :: "typeElement \<Rightarrow> writerCall list" where
  "deepNestedTrait nestedPropSig =
    (let nestedTraitName = capitalize (propertyName nestedPropSig)
     in [Write ''@js.native'', NewLine,
         Write (''trait '' @ nestedTraitName @ '' extends js.Object ''),
         Block (concat (map processInterfaceMember (typeLiteralMembers nestedPropSig)))])"

definition nestedTrait :: "typeElement \<Rightarrow> writerCall list" where
  "nestedTrait propSig =
    (let traitName = capitalize (propertyName propSig);
         deepInlineMembers = filter isInlineTypeLiteral (typeLiteralMembers propSig)
     in [Write ''@js.native'', NewLine,
         Write (''trait '' @ traitName @ '' extends js.Object ''),
         Block (concat (map (\<lambda>nestedMember.
                   if isInlineTypeLiteral nestedMember
                   then [WriteLine (''var '' @ propertyName nestedMember @ '': '' @ traitName
                           @ ''.'' @ capitalize (propertyName nestedMember) @ '' = js.native'')]
                   else processInterfaceMember nestedMember)
                 (typeLiteralMembers propSig)))]
        @ (if length deepInlineMembers > 0
           then [NewLine, Write (''object '' @ traitName @ '' ''),
                 Block (concat (map deepNestedTrait deepInlineMembers))]
           else []))"

definition processInterfaceDeclaration ::
  "interfaceDeclaration \<Rightarrow> string \<Rightarrow> writerCall list" where
  "processInterfaceDeclaration node namespace =
    (let inlineTypeLiteralMembers = filter isInlineTypeLiteral (interface_members node)
     in [NewLine, GetIndentationLevel, SetIndentationLevel 0]
        @ writeInterfaceTrait node
        @ (if length inlineTypeLiteralMembers > 0
           then [NewLine, Write (''object '' @ interface_name node @ '' ''),
                 Block (concat (map nestedTrait inlineTypeLiteralMembers))]
           else [])
        @ [NewLine, RestoreIndentationLevel])"

section \<open>Enums and variables\<close>

text \<open>
  \<^verbatim>\<open>processEnumDeclaration\<close> (lines 568-603) and \<^verbatim>\<open>processVariableStatement\<close>
  (lines 611-649).  \<open>objectMember\<close> is the body of the loop over the members of the type
  literal (lines 627-639) and \<open>processVariableDeclaration\<close> the body of the loop over the
  declarations.  Type aliases, functions and export assignments write nothing where they
  stand (lines 605-609, 651-657, 1028-1031).
\<close>

definition processEnumDeclaration :: "enumDeclaration \<Rightarrow> string \<Rightarrow> writerCall list" where
  "processEnumDeclaration node namespace =
    (let enumName = enum_name node
     in [NewLine, GetIndentationLevel, SetIndentationLevel 0,
         Write ''@js.native'', NewLine,
         Write (''sealed trait '' @ enumName @ '' extends js.Object ''), Block [],
         NewLine, NewLine,
         Write ''@js.native'', NewLine,
         (if namespace \<noteq> []
          then Write (''@JSGlobal('' @ dquote @ namespace @ ''.'' @ enumName @ dquote @ '')'')
          else Write (''@JSGlobal('' @ dquote @ enumName @ dquote @ '')'')),
         NewLine,
         Write (''object '' @ enumName @ '' extends js.Object ''),
         Block (concat (map (\<lambda>memberName.
                   if memberName \<noteq> []
                   then [WriteLine (''var '' @ memberName @ '': '' @ enumName @ '' = js.native'')]
                   else []) (enum_members node))
           @ [WriteLine ''@JSBracketAccess'',
              WriteLine (''def apply(value: '' @ enumName @ ''): String = js.native'')]),
         NewLine, RestoreIndentationLevel])"

fun isTypeLiteralNode :: "tsType \<Rightarrow> bool" where
  "isTypeLiteralNode (TypeLiteral members) = True"
| "isTypeLiteralNode _ = False"

fun objectMember :: "typeElement \<Rightarrow> writerCall list" where
  "objectMember (PropertySignature name modifiers type) =
    (let memberName = (if name = [] then ''unknown'' else name);
         memberType = convertOptionalType type ''js.Any'';
         safeMemberName = (if (memberName \<noteq> [] \<and> isDigit (hd memberName))
                              \<or> CHR ''.'' \<in> set memberName
                           then quoted memberName else memberName)
     in [WriteLine (''var '' @ safeMemberName @ '': '' @ memberType @ '' = js.native'')])"
| "objectMember _ = []"

fun processVariableDeclaration :: "variableDeclaration \<Rightarrow> string \<Rightarrow> writerCall list" where
  "processVariableDeclaration decl namespace =
    (case var_type decl of
       Some (TypeLiteral members) \<Rightarrow>
         [NewLine, GetIndentationLevel, SetIndentationLevel 0,
          Write ''@js.native'', NewLine,
          (if namespace \<noteq> []
           then Write (''@JSGlobal('' @ dquote @ namespace @ ''.'' @ var_name decl @ dquote
                  @ '')'')
           else Write ''@JSGlobal''),
          NewLine,
          Write (''object '' @ var_name decl @ '' extends js.Object ''),
          Block (concat (map objectMember members)),
          NewLine, RestoreIndentationLevel]
     | _ \<Rightarrow> [])"

definition processVariableStatement ::
  "variableDeclaration list \<Rightarrow> string \<Rightarrow> writerCall list" where
  "processVariableStatement declarations namespace =
    concat (map (\<lambda>decl. processVariableDeclaration decl namespace) declarations)"

section \<open>Companion objects of a scope\<close>

text \<open>
  The declarations collected for a scope: the object \<^verbatim>\<open>topLevelExports\<close> of lines
  45-52 and the object \<^verbatim>\<open>exports\<close> of lines 159-164, which has no classes and no
  export assignments.
\<close>

record exports =
  exports_interfaces :: "interfaceDeclaration list"
  exports_types :: "typeAliasDeclaration list"
  exports_classes :: "classDeclaration list"
  exports_functions :: "functionDeclaration list"
  exports_exportAssignments :: "expression list"
  exports_variables :: "variableDeclaration list"

definition emptyExports :: exports where
  "emptyExports =
    \<lparr>exports_interfaces = [], exports_types = [], exports_classes = [],
     exports_functions = [], exports_exportAssignments = [], exports_variables = []\<rparr>"

text \<open>A \<^verbatim>\<open>forEach\<close> whose body computes one line and may raise.\<close>

fun collectResults :: "(error + 'a) list \<Rightarrow> error + 'a list" where
  "collectResults [] = Inr []"
| "collectResults (r # rs) =
    (case r of
       Inl e \<Rightarrow> Inl e
     | Inr x \<Rightarrow> (case collectResults rs of Inl e \<Rightarrow> Inl e | Inr xs \<Rightarrow> Inr (x # xs)))"

text \<open>
  \<^verbatim>\<open>getTypeAliasName\<close> (lines 1006-1018) and \<^verbatim>\<open>convertTypeAliasToScala\<close> (lines
  1020-1022).  \<open>typeAliasBinding\<close> and \<open>variableBinding\<close> are the lines that both
  objects write for a type alias (lines 900-904, 952-956) and for a variable (lines
  906-913, 981-988).
\<close>

definition getTypeAliasName :: "typeAliasDeclaration \<Rightarrow> string" where
  "getTypeAliasName typeAlias =
    (let name = alias_name typeAlias;
         typeParams = map (\<lambda>tp. tpName tp @
           (case tpConstraint tp of Some c \<Rightarrow> '' <: '' @ convertTypeToScala c | None \<Rightarrow> ''''))
           (alias_typeParameters typeAlias)
     in if length typeParams > 0 then name @ ''['' @ join '', '' typeParams @ '']'' else name)"

definition convertTypeAliasToScala :: "typeAliasDeclaration \<Rightarrow> string" where
  "convertTypeAliasToScala typeAlias = convertTypeToScala (alias_type typeAlias)"

definition typeAliasBinding :: "typeAliasDeclaration \<Rightarrow> string" where
  "typeAliasBinding typeAlias =
    (let typeName = getTypeAliasName typeAlias;
         typeValue = convertTypeAliasToScala typeAlias
     in ''type '' @ typeName @ '' = '' @ typeValue)"

definition variableBinding :: "variableDeclaration \<Rightarrow> string" where
  "variableBinding variable =
    (let varName = var_name variable;
         varType = convertOptionalType (var_type variable) ''js.Any'';
         keyword = (if var_parentConst variable then ''val'' else ''def'')
     in keyword @ '' '' @ varName @ '': '' @ varType @ '' = js.native'')"

text \<open>
  \<^verbatim>\<open>generateModuleObject\<close> (lines 891-939); \<open>moduleFunctionBinding\<close> is the body of
  its loop over the functions (lines 915-935).
\<close>

definition moduleFunctionBinding :: "functionDeclaration \<Rightarrow> error + string" where
  "moduleFunctionBinding func =
    (case function_name func of
       None \<Rightarrow> Inl TypeError
     | Some functionName \<Rightarrow>
        (let params = join '', '' (map plainParam (function_parameters func));
             returnType = convertOptionalType (function_type func) ''js.Dynamic''
         in Inr (''def '' @ functionName @ typeParamString (function_typeParameters func)
               @ ''('' @ params @ ''): '' @ returnType @ '' = js.native'')))"

definition generateModuleObject :: "string \<Rightarrow> exports \<Rightarrow> error + writerCall list" where
  "generateModuleObject moduleName exports =
    (if length (exports_types exports) = 0 \<and> length (exports_functions exports) = 0
        \<and> length (exports_variables exports) = 0
     then Inr []
     else
      (case collectResults (map moduleFunctionBinding (exports_functions exports)) of
         Inl e \<Rightarrow> Inl e
       | Inr functionLines \<Rightarrow>
          Inr [NewLine, GetIndentationLevel, SetIndentationLevel 0,
               Write ''@js.native'', NewLine,
               Write (''@JSGlobal('' @ dquote @ moduleName @ dquote @ '')''), NewLine,
               Write (''object '' @ capitalize moduleName @ '' extends js.Object ''),
               Block (map (\<lambda>typeAlias. WriteLine (typeAliasBinding typeAlias))
                        (exports_types exports)
                 @ map (\<lambda>variable. WriteLine (variableBinding variable))
                        (exports_variables exports)
                 @ map WriteLine functionLines),
               NewLine, RestoreIndentationLevel]))"

text \<open>
  \<^verbatim>\<open>generateGlobalScopeObject\<close> (lines 941-1004).  \<open>globalFunctionBinding\<close> is the
  line for a function of a known name (lines 967-975 and 992-999), \<open>exportAssignmentBinding\<close>
  the body of the loop over the export assignments (lines 959-978) and
  \<open>standaloneFunctionBinding\<close> the body of the loop over the functions (lines 991-1000).
  The lines of the export assignments are written once, the lines of the variables always,
  and the lines of the functions once again, against the same set.
\<close>

definition globalFunctionBinding :: "string \<Rightarrow> functionDeclaration \<Rightarrow> string" where
  "globalFunctionBinding functionName func =
    (let params = join '', '' (map plainParam (function_parameters func));
         returnType = convertOptionalType (function_type func) ''Unit''
     in ''def '' @ functionName @ ''('' @ params @ ''): '' @ returnType @ '' = js.native'')"

fun exportAssignmentBinding :: "functionDeclaration list \<Rightarrow> expression \<Rightarrow> string list" where
  "exportAssignmentBinding functions (Identifier exportedName) =
    (case find (\<lambda>func. function_name func = Some exportedName) functions of
       Some exportedFunction \<Rightarrow> [globalFunctionBinding exportedName exportedFunction]
     | None \<Rightarrow> [])"
| "exportAssignmentBinding functions OtherExpression = []"

definition standaloneFunctionBinding :: "functionDeclaration \<Rightarrow> error + string" where
  "standaloneFunctionBinding func =
    (case function_name func of
       None \<Rightarrow> Inl TypeError
     | Some functionName \<Rightarrow> Inr (globalFunctionBinding functionName func))"

definition generateGlobalScopeObject :: "string \<Rightarrow> exports \<Rightarrow> error + writerCall list" where
  "generateGlobalScopeObject packageName exports =
    (if length (exports_types exports) = 0 \<and> length (exports_functions exports) = 0
        \<and> length (exports_exportAssignments exports) = 0
        \<and> length (exports_variables exports) = 0
     then Inr []
     else
      (case collectResults (map standaloneFunctionBinding (exports_functions exports)) of
         Inl e \<Rightarrow> Inl e
       | Inr functionLines \<Rightarrow>
          (let forwarded = concat (map (exportAssignmentBinding (exports_functions exports))
                                    (exports_exportAssignments exports))
           in Inr [NewLine, GetIndentationLevel, SetIndentationLevel 0,
                   Write ''@js.native'', NewLine,
                   Write ''@JSGlobalScope'', NewLine,
                   Write (''object '' @ capitalize packageName @ '' extends js.Object ''),
                   Block (map (\<lambda>typeAlias. WriteLine (typeAliasBinding typeAlias))
                            (exports_types exports)
                     @ emit [] forwarded
                     @ map (\<lambda>variable. WriteLine (variableBinding variable))
                            (exports_variables exports)
                     @ emit (newSet [] forwarded) functionLines),
                   NewLine, RestoreIndentationLevel])))"

section \<open>Statements\<close>

text \<open>
  The loops over the statements of a scope collect declarations and process the statement
  in the same pass; what is collected does not depend on what is written, so the model
  folds the collection over the statements and concatenates the calls.
  \<open>collectModuleExport\<close> is the collection of lines 170-182.  At the top level (lines
  56-79) an exported interface or class is collected first
  (\<open>collectExportedDeclaration\<close>), then functions, export assignments, variables and type
  aliases (\<open>collectGlobalDeclaration\<close>).  A variable is collected in a module unless its
  type is a type literal, and at the top level only when it has a type that is not a type
  literal.
\<close>

fun collectModuleExport :: "exports \<Rightarrow> statement \<Rightarrow> exports" where
  "collectModuleExport ex (InterfaceDeclaration d) =
     ex\<lparr>exports_interfaces := exports_interfaces ex @ [d]\<rparr>"
| "collectModuleExport ex (TypeAliasDeclaration a) =
     ex\<lparr>exports_types := exports_types ex @ [a]\<rparr>"
| "collectModuleExport ex (FunctionDeclaration f) =
     ex\<lparr>exports_functions := exports_functions ex @ [f]\<rparr>"
| "collectModuleExport ex (VariableStatement modifiers declarations) =
     ex\<lparr>exports_variables := exports_variables ex
        @ filter (\<lambda>decl. \<not> (case var_type decl of Some t \<Rightarrow> isTypeLiteralNode t
                                | None \<Rightarrow> False)) declarations\<rparr>"
| "collectModuleExport ex _ = ex"

fun hasExportModifier :: "statement \<Rightarrow> bool" where
  "hasExportModifier (ModuleDeclaration name modifiers body) = hasModifier ExportKeyword modifiers"
| "hasExportModifier (ClassDeclaration d) = hasModifier ExportKeyword (class_modifiers d)"
| "hasExportModifier (InterfaceDeclaration d) =
     hasModifier ExportKeyword (interface_modifiers d)"
| "hasExportModifier (EnumDeclaration d) = hasModifier ExportKeyword (enum_modifiers d)"
| "hasExportModifier (TypeAliasDeclaration d) = hasModifier ExportKeyword (alias_modifiers d)"
| "hasExportModifier (VariableStatement modifiers declarations) =
     hasModifier ExportKeyword modifiers"
| "hasExportModifier (FunctionDeclaration d) =
     hasModifier ExportKeyword (function_modifiers d)"
| "hasExportModifier _ = False"

fun collectExportedDeclaration :: "exports \<Rightarrow> statement \<Rightarrow> exports" where
  "collectExportedDeclaration ex (InterfaceDeclaration d) =
     ex\<lparr>exports_interfaces := exports_interfaces ex @ [d]\<rparr>"
| "collectExportedDeclaration ex (ClassDeclaration d) =
     ex\<lparr>exports_classes := exports_classes ex @ [d]\<rparr>"
| "collectExportedDeclaration ex _ = ex"

fun collectGlobalDeclaration :: "exports \<Rightarrow> statement \<Rightarrow> exports" where
  "collectGlobalDeclaration ex (FunctionDeclaration f) =
     ex\<lparr>exports_functions := exports_functions ex @ [f]\<rparr>"
| "collectGlobalDeclaration ex (ExportAssignment e) =
     ex\<lparr>exports_exportAssignments := exports_exportAssignments ex @ [e]\<rparr>"
| "collectGlobalDeclaration ex (VariableStatement modifiers declarations) =
     ex\<lparr>exports_variables := exports_variables ex
        @ filter (\<lambda>decl. case var_type decl of Some t \<Rightarrow> \<not> isTypeLiteralNode t
                           | None \<Rightarrow> False) declarations\<rparr>"
| "collectGlobalDeclaration ex (TypeAliasDeclaration a) =
     ex\<lparr>exports_types := exports_types ex @ [a]\<rparr>"
| "collectGlobalDeclaration ex _ = ex"

definition collectTopLevelExport :: "exports \<Rightarrow> statement \<Rightarrow> exports" where
  "collectTopLevelExport ex statement =
    collectGlobalDeclaration
      (if hasExportModifier statement then collectExportedDeclaration ex statement else ex)
      statement"

fun isModuleDeclaration :: "statement \<Rightarrow> bool" where
  "isModuleDeclaration (ModuleDeclaration name modifiers body) = True"
| "isModuleDeclaration _ = False"

text \<open>
  \<^verbatim>\<open>processStatement\<close> (lines 101-137) and \<^verbatim>\<open>processModuleDeclaration\<close> (lines
  139-197).  The namespace is the dotted path of the enclosing modules, empty at the top
  level.
\<close>

fun processStatement :: "statement \<Rightarrow> string \<Rightarrow> error + writerCall list"
and processModuleDeclaration ::
  "moduleName \<Rightarrow> statement list option \<Rightarrow> string \<Rightarrow> error + writerCall list"
where
  "processStatement (ModuleDeclaration name modifiers body) namespace =
     processModuleDeclaration name body namespace"
| "processStatement (ClassDeclaration node) namespace =
     Inr (processClassDeclaration node namespace)"
| "processStatement (InterfaceDeclaration node) namespace =
     Inr (processInterfaceDeclaration node namespace)"
| "processStatement (EnumDeclaration node) namespace =
     Inr (processEnumDeclaration node namespace)"
| "processStatement (TypeAliasDeclaration node) namespace = Inr []"
| "processStatement (VariableStatement modifiers declarations) namespace =
     Inr (processVariableStatement declarations namespace)"
| "processStatement (FunctionDeclaration node) namespace = Inr []"
| "processStatement ExportDeclaration namespace = Inr []"
| "processStatement (ExportAssignment expression) namespace = Inr []"
| "processStatement ImportDeclaration namespace = Inr []"
| "processStatement OtherStatement namespace = Inr []"
| "processModuleDeclaration (ModuleStringLiteral name) body namespace = Inr []"
| "processModuleDeclaration (ModuleIdentifier moduleName) body namespace =
    (let newNamespace = (if namespace \<noteq> [] then namespace @ ''.'' @ moduleName
                         else moduleName);
         inner =
          (case body of
             Some statements \<Rightarrow>
              (let exports = foldl collectModuleExport emptyExports statements
               in case concatResults
                         (map (\<lambda>statement. processStatement statement newNamespace)
                            statements) of
                    Inl e \<Rightarrow> Inl e
                  | Inr declarations \<Rightarrow>
                     (if length (exports_types exports) > 0
                         \<or> length (exports_functions exports) > 0
                         \<or> length (exports_variables exports) > 0
                      then (case generateModuleObject moduleName exports of
                              Inl e \<Rightarrow> Inl e
                            | Inr object \<Rightarrow> Inr (declarations @ object))
                      else Inr declarations))
           | None \<Rightarrow> Inr [])
     in case inner of
          Inl e \<Rightarrow> Inl e
        | Inr calls \<Rightarrow>
           Inr [NewLine, GetIndentationLevel, SetIndentationLevel 0,
                Write (''package '' @ safeModuleName moduleName @ '' ''),
                Block (calls @ [SetIndentationLevel 0, NewLine]),
                RestoreIndentationLevel])"

text \<open>
  \<^verbatim>\<open>generateScalaOutput\<close> (lines 29-99) on the statements of the source file.
  \<^verbatim>\<open>convertTsToScala\<close> (lines 7-27) parses the input, calls it on a new writer and
  returns the text of the writer.
\<close>

definition generateScalaOutput :: "statement list \<Rightarrow> string \<Rightarrow> error + writerCall list" where
  "generateScalaOutput statements packageName =
    (let topLevelExports = foldl collectTopLevelExport emptyExports statements;
         hasModules = list_ex isModuleDeclaration statements
     in case concatResults (map (\<lambda>statement. processStatement statement []) statements) of
          Inl e \<Rightarrow> Inl e
        | Inr declarations \<Rightarrow>
           (case (if length (exports_types topLevelExports) > 0
                     \<or> length (exports_exportAssignments topLevelExports) > 0
                     \<or> length (exports_variables topLevelExports) > 0
                  then generateGlobalScopeObject packageName topLevelExports
                  else Inr []) of
              Inl e \<Rightarrow> Inl e
            | Inr globalScope \<Rightarrow>
               Inr [WriteLine [],
                    WriteLine ''import scala.scalajs.js'',
                    WriteLine ''import js.annotation._'',
                    WriteLine ''import js.|'',
                    WriteLine [],
                    Write (packageDeclaration packageName @ '' ''),
                    Block (declarations @ globalScope @ [SetIndentationLevel 0, NewLine]
                      @ (if hasModules then [NewLine] else []))]))"

section \<open>Notions used to state the properties\<close>

text \<open>
  Whether a numeric literal type is written with a decimal point: the test
  \<^verbatim>\<open>text.includes('.')\<close> on the literal's source text.
\<close>

definition hasDecimalPoint :: "tsType \<Rightarrow> bool" where
  "hasDecimalPoint t =
    (case numericLiteralText t of Some text \<Rightarrow> CHR ''.'' \<in> set text | None \<Rightarrow> False)"

text \<open>
  The strings handed to the writer by a sequence of calls, in order, blocks included.
\<close>

fun written :: "writerCall \<Rightarrow> string list" where
  "written (Write s) = [s]"
| "written (WriteLine s) = [s]"
| "written (Block calls) = concat (map written calls)"
| "written _ = []"

definition writtenTexts :: "writerCall list \<Rightarrow> string list" where
  "writtenTexts calls = concat (map written calls)"




section \<open>Sample declarations\<close>

text \<open>
  Declaration trees of small inputs, used below to run the converter:
  \<^item> \<open>exportedFoo\<close>: \<^verbatim>\<open>export declare function foo(): void;\<close>
  \<^item> \<open>staticCounter\<close>: \<^verbatim>\<open>declare class Counter { static count: number; }\<close>
  \<^item> \<open>privateCtor\<close>: \<^verbatim>\<open>declare class Registry { private constructor(size: number); }\<close>
  \<^item> \<open>deepConfig\<close>:
    \<^verbatim>\<open>interface Config { server: { tls: { cert: { path: string } } } }\<close>
  \<^item> \<open>sampleExports\<close>: the collected variables of
    \<^verbatim>\<open>declare const version: string; declare let counter: number;\<close>
  \<^item> \<open>sampleInterface\<close>: \<^verbatim>\<open>interface Point { x: number }\<close>
  \<^item> \<open>typeModule\<close>: \<^verbatim>\<open>declare namespace type { }\<close>
  \<^item> \<open>matchClass\<close>: \<^verbatim>\<open>declare class match { yield(): void; run(): void; }\<close>
\<close>

definition exportedFoo :: statement where
  "exportedFoo = FunctionDeclaration
     \<lparr>function_name = Some ''foo'', function_modifiers = [ExportKeyword, DeclareKeyword],
      function_typeParameters = [], function_parameters = [],
      function_type = Some VoidKeyword\<rparr>"

definition staticCounter :: classDeclaration where
  "staticCounter =
    \<lparr>class_name = Some ''Counter'', class_modifiers = [DeclareKeyword],
     class_typeParameters = [], class_heritageClauses = [],
     class_members = [PropertyDeclaration ''count'' [StaticKeyword] (Some NumberKeyword)]\<rparr>"

definition privateCtor :: classDeclaration where
  "privateCtor =
    \<lparr>class_name = Some ''Registry'', class_modifiers = [DeclareKeyword],
     class_typeParameters = [], class_heritageClauses = [],
     class_members =
       [ConstructorDeclaration [PrivateKeyword]
          [Parameter ''size'' (Some NumberKeyword) False False]]\<rparr>"

definition deepConfig :: interfaceDeclaration where
  "deepConfig =
    \<lparr>interface_name = ''Config'', interface_modifiers = [],
     interface_typeParameters = [],
     interface_members =
       [PropertySignature ''server'' [] (Some (TypeLiteral
          [PropertySignature ''tls'' [] (Some (TypeLiteral
             [PropertySignature ''cert'' [] (Some (TypeLiteral
                [PropertySignature ''path'' [] (Some StringKeyword)]))]))]))]\<rparr>"

definition sampleExports :: exports where
  "sampleExports =
    \<lparr>exports_interfaces = [], exports_types = [], exports_classes = [],
     exports_functions = [], exports_exportAssignments = [],
     exports_variables =
       [\<lparr>var_name = ''version'', var_type = Some StringKeyword, var_parentConst = True\<rparr>,
        \<lparr>var_name = ''counter'', var_type = Some NumberKeyword, var_parentConst = False\<rparr>]\<rparr>"




text \<open>The defining equations that the simplifier unfolds to run the converter.\<close>

lemmas eval_defs =
  generateScalaOutput_def generateGlobalScopeObject_def generateModuleObject_def
  collectTopLevelExport_def emptyExports_def packageDeclaration_def
  classNameText_def processClassDeclaration_def processInterfaceDeclaration_def processEnumDeclaration_def
  processVariableStatement_def
  hasModifier_def isPrivateOrProtected_def isStatic_def
  SCALA_RESERVED_WORDS_def quoted_def backquote_def dquote_def newline_def
  capitalize_def toUpperCase_def trim_def isWhiteSpace_def isLetter_def isDigit_def
  safeModuleName_def safeClassName_def safeName_def safeParamName_def
  convertOptionalType_def typeParamString_def overridePrefix_def plainParam_def
  processPropertyDeclaration_def processPropertySignature_def processMethodDeclaration_def
  processMethodSignature_def processIndexSignature_def
  heritageString_def secondaryConstructor_def
  traitMemberLine_def writeInterfaceTrait_def deepNestedTrait_def nestedTrait_def
  getTypeAliasName_def convertTypeAliasToScala_def typeAliasBinding_def variableBinding_def
  moduleFunctionBinding_def globalFunctionBinding_def standaloneFunctionBinding_def
  unwrapJsArray_def typeMapping_def Let_def

section \<open>Properties of the type mapper\<close>

subsection \<open>De-duplication\<close>

lemma set_newSet: "set (newSet seen xs) = set seen \<union> set xs"
  by (induction xs arbitrary: seen) auto

lemma distinct_newSet: "distinct seen \<Longrightarrow> distinct (newSet seen xs)"
  by (induction xs arbitrary: seen) auto

lemma distinct_singleton_set: "distinct xs \<Longrightarrow> set xs = {a} \<Longrightarrow> xs = [a]"
  by (cases xs) (auto simp: insert_eq_iff dest: subset_singletonD)

lemma convert_string_literal: "isStringLiteralType t \<Longrightarrow> convertTypeToScala t = ''String''"
  by (induction t rule: isStringLiteralType.induct) simp_all

lemma convert_numeric_literal:
  "isNumericLiteralType t \<Longrightarrow> convertTypeToScala t = ''Int'' \<or> convertTypeToScala t = ''Double''"
  by (induction t rule: isNumericLiteralType.induct) simp_all

lemma mapped_not_all_string_literals:
  assumes "''Null'' \<in> set (map convertTypeToScala nodeTypes)"
  shows "\<not> list_all isStringLiteralType nodeTypes"
proof
  assume all: "list_all isStringLiteralType nodeTypes"
  from assms obtain t where t: "t \<in> set nodeTypes" "convertTypeToScala t = ''Null''" by auto
  from all t(1) have "isStringLiteralType t" by (simp add: list_all_iff)
  with t(2) show False by (simp add: convert_string_literal)
qed

lemma mapped_not_all_numeric_literals:
  assumes "''Null'' \<in> set (map convertTypeToScala nodeTypes)"
  shows "\<not> list_all isNumericLiteralType nodeTypes"
proof
  assume all: "list_all isNumericLiteralType nodeTypes"
  from assms obtain t where t: "t \<in> set nodeTypes" "convertTypeToScala t = ''Null''" by auto
  from all t(1) have "isNumericLiteralType t" by (simp add: list_all_iff)
  from convert_numeric_literal[OF this] t(2) show False by simp
qed

lemma numeric_literal_cases:
  assumes "isNumericLiteralType t"
  obtains s where "t = LiteralType (NumericLiteral s)"
  using assms by (induction t rule: isNumericLiteralType.induct) simp_all

lemma convert_numeric_by_point:
  "isNumericLiteralType t \<Longrightarrow>
   convertTypeToScala t = (if hasDecimalPoint t then ''Double'' else ''Int'')"
  by (erule numeric_literal_cases) (simp add: hasDecimalPoint_def)

lemma numeric_not_string: "isNumericLiteralType t \<Longrightarrow> \<not> isStringLiteralType t"
  by (erule numeric_literal_cases) simp

lemma allIntegers_iff:
  "list_all isNumericLiteralType ts \<Longrightarrow>
   list_all (\<lambda>t. case numericLiteralText t of Some text \<Rightarrow> CHR ''.'' \<notin> set text | None \<Rightarrow> False) ts
     = list_all (\<lambda>t. \<not> hasDecimalPoint t) ts"
  by (induction ts) (auto simp: hasDecimalPoint_def elim: numeric_literal_cases)

lemma allDoubles_iff:
  "list_all (\<lambda>t. case numericLiteralText t of Some text \<Rightarrow> CHR ''.'' \<in> set text | None \<Rightarrow> False) ts
     = list_all hasDecimalPoint ts"
  by (induction ts) (simp_all add: hasDecimalPoint_def)

lemma hd_newSet: "seen \<noteq> [] \<Longrightarrow> hd (newSet seen xs) = hd seen"
  by (induction xs arbitrary: seen) auto

lemma hd_newSet_Nil: "xs \<noteq> [] \<Longrightarrow> hd (newSet [] xs) = hd xs"
  by (cases xs) (simp_all add: hd_newSet)

lemma distinct_pair_set:
  assumes "distinct ys" "set ys = {a, b}" "a \<noteq> b" "hd ys = a"
  shows "ys = [a, b]"
proof (cases ys)
  case Nil
  with assms show ?thesis by simp
next
  case (Cons y rest)
  with assms have y: "y = a" by simp
  from assms Cons y have "distinct rest" "set rest = {b}" by auto
  then have "rest = [b]" by (rule distinct_singleton_set)
  with Cons y show ?thesis by simp
qed

lemma mixed_unique:
  assumes ne: "ts \<noteq> []" and num: "list_all isNumericLiteralType ts"
    and some_int: "\<not> list_all hasDecimalPoint ts"
    and some_dbl: "\<not> list_all (\<lambda>t. \<not> hasDecimalPoint t) ts"
  shows "newSet [] (map convertTypeToScala ts) =
    (if hasDecimalPoint (hd ts) then [''Double'', ''Int''] else [''Int'', ''Double''])"
proof -
  let ?types = "map convertTypeToScala ts"
  have conv: "\<And>t. t \<in> set ts \<Longrightarrow>
      convertTypeToScala t = (if hasDecimalPoint t then ''Double'' else ''Int'')"
    using num by (simp add: list_all_iff convert_numeric_by_point)
  from some_int obtain i where i: "i \<in> set ts" "\<not> hasDecimalPoint i"
    by (auto simp: list_all_iff)
  from some_dbl obtain d where d: "d \<in> set ts" "hasDecimalPoint d"
    by (auto simp: list_all_iff)
  have "''Int'' \<in> set ?types" using i conv[OF i(1)] by force
  moreover have "''Double'' \<in> set ?types" using d conv[OF d(1)] by force
  moreover have "set ?types \<subseteq> {''Int'', ''Double''}" using conv by auto
  ultimately have set_types: "set ?types = {''Int'', ''Double''}" by blast
  have dist: "distinct (newSet [] ?types)" by (simp add: distinct_newSet)
  have set_u: "set (newSet [] ?types) = {''Int'', ''Double''}"
    using set_types by (simp add: set_newSet)
  have hd_u: "hd (newSet [] ?types) = convertTypeToScala (hd ts)"
    using ne by (simp add: hd_newSet_Nil hd_map)
  have hd_in: "hd ts \<in> set ts" using ne by simp
  show ?thesis
  proof (cases "hasDecimalPoint (hd ts)")
    case True
    then have "hd (newSet [] ?types) = ''Double''" using hd_u conv[OF hd_in] by simp
    with dist set_u have "newSet [] ?types = [''Double'', ''Int'']"
      by (intro distinct_pair_set) auto
    with True show ?thesis by simp
  next
    case False
    then have "hd (newSet [] ?types) = ''Int''" using hd_u conv[OF hd_in] by simp
    with dist set_u have "newSet [] ?types = [''Int'', ''Double'']"
      by (intro distinct_pair_set) auto
    with False show ?thesis by simp
  qed
qed

subsection \<open>Unions of numeric literals\<close>

text \<open>
  Claim C3, as the code has it.  A union all of whose members are numeric literal types maps
  to \<open>Int\<close> when no member is written with a decimal point and to \<open>Double\<close> when every
  member is written with one.  A union that mixes the two categories is not collapsed: it
  falls through to the general rule and is rendered as the two mapped names, joined in the
  order of their first occurrence.
\<close>

theorem convertUnionType_numeric_literals:
  assumes ne: "nodeTypes \<noteq> []" and num: "list_all isNumericLiteralType nodeTypes"
  shows "convertTypeToScala (UnionType nodeTypes) =
    (if list_all (\<lambda>t. \<not> hasDecimalPoint t) nodeTypes then ''Int''
     else if list_all hasDecimalPoint nodeTypes then ''Double''
     else if hasDecimalPoint (hd nodeTypes) then ''Double | Int'' else ''Int | Double'')"
proof -
  have no_str: "\<not> list_all isStringLiteralType nodeTypes"
    using ne num by (cases nodeTypes) (auto dest: numeric_not_string)
  have no_str_ex: "\<not> list_ex isStringLiteralType nodeTypes"
    using num by (auto simp: list_all_iff list_ex_iff dest: numeric_not_string)
  show ?thesis
  proof (cases "list_all (\<lambda>t. \<not> hasDecimalPoint t) nodeTypes")
    case True
    then show ?thesis
      using no_str num by (simp add: Let_def allIntegers_iff)
  next
    case ints: False
    show ?thesis
    proof (cases "list_all hasDecimalPoint nodeTypes")
      case True
      then show ?thesis
        using no_str num ints by (simp add: Let_def allIntegers_iff allDoubles_iff)
    next
      case False
      from mixed_unique[OF ne num False ints]
      show ?thesis
        using no_str no_str_ex num ints False
        by (simp add: Let_def allIntegers_iff allDoubles_iff)
    qed
  qed
qed

theorem convertUnionType_numeric_literals_witness:
  "convertTypeToScala (UnionType [LiteralType (NumericLiteral ''1''), LiteralType (NumericLiteral ''2'')]) = ''Int''
   \<and> convertTypeToScala (UnionType [LiteralType (NumericLiteral ''0.5''), LiteralType (NumericLiteral ''2.5'')]) = ''Double''
   \<and> convertTypeToScala (UnionType [LiteralType (NumericLiteral ''2.5''), LiteralType (NumericLiteral ''1'')]) = ''Double | Int''"
  using convertUnionType_numeric_literals[of "[LiteralType (NumericLiteral ''1''), LiteralType (NumericLiteral ''2'')]"]
    convertUnionType_numeric_literals[of "[LiteralType (NumericLiteral ''0.5''), LiteralType (NumericLiteral ''2.5'')]"]
    convertUnionType_numeric_literals[of "[LiteralType (NumericLiteral ''2.5''), LiteralType (NumericLiteral ''1'')]"]
  by (simp add: hasDecimalPoint_def)

text \<open>
  The union \<^verbatim>\<open>1 | 2.5\<close> has only numeric literal members, one of them with a decimal
  point, and is mapped to \<open>Int | Double\<close>, not to \<open>Double\<close>.
\<close>

theorem convertUnionType_mixed_numeric_counterexample:
  "list_all isNumericLiteralType [LiteralType (NumericLiteral ''1''), LiteralType (NumericLiteral ''2.5'')]
   \<and> list_ex hasDecimalPoint [LiteralType (NumericLiteral ''1''), LiteralType (NumericLiteral ''2.5'')]
   \<and> convertTypeToScala (UnionType [LiteralType (NumericLiteral ''1''), LiteralType (NumericLiteral ''2.5'')])
       = ''Int | Double''
   \<and> convertTypeToScala (UnionType [LiteralType (NumericLiteral ''1''), LiteralType (NumericLiteral ''2.5'')])
       \<noteq> ''Double''"
  by (simp add: hasDecimalPoint_def)

subsection \<open>Node kinds without a mapping rule\<close>


subsection \<open>The nullable pattern\<close>

text \<open>
  Claim C8.  When the mapped members of a union are, as a set, some type \<open>T\<close> together with
  \<open>Null\<close> and \<open>Unit\<close>, the union is rendered as \<open>T | Null | Unit\<close>, whatever the order
  and multiplicity of the members.
\<close>

theorem convertUnionType_nullable:
  assumes mapped: "set (map convertTypeToScala nodeTypes) = {T, ''Null'', ''Unit''}"
    and other: "T \<noteq> ''Null''" "T \<noteq> ''Unit''"
  shows "convertTypeToScala (UnionType nodeTypes) = T @ '' | Null | Unit''"
proof -
  let ?types = "map convertTypeToScala nodeTypes"
  let ?uniqueTypes = "newSet [] ?types"
  let ?otherTypes = "filter (\<lambda>t. t \<noteq> ''Null'' \<and> t \<noteq> ''Unit'') ?uniqueTypes"
  have null_in: "''Null'' \<in> set ?types" using mapped by simp
  have no_str: "\<not> list_all isStringLiteralType nodeTypes"
    using null_in by (rule mapped_not_all_string_literals)
  have no_num: "\<not> list_all isNumericLiteralType nodeTypes"
    using null_in by (rule mapped_not_all_numeric_literals)
  have set_unique: "set ?uniqueTypes = {T, ''Null'', ''Unit''}"
    using mapped by (simp add: set_newSet)
  have "distinct ?otherTypes" by (simp add: distinct_newSet)
  moreover have "set ?otherTypes = {T}" using set_unique other by auto
  ultimately have others: "?otherTypes = [T]" by (rule distinct_singleton_set)
  have incl: "''Null'' \<in> set ?uniqueTypes" "''Unit'' \<in> set ?uniqueTypes"
    using set_unique by simp_all
  show ?thesis
    using no_str no_num incl others by (simp add: Let_def)
qed

theorem convertUnionType_nullable_witness:
  "set (map convertTypeToScala [NullKeyword, TypeReference ''Foo'' [], UndefinedKeyword])
     = {''Foo'', ''Null'', ''Unit''}
   \<and> convertTypeToScala (UnionType [NullKeyword, TypeReference ''Foo'' [], UndefinedKeyword])
     = ''Foo | Null | Unit''"
proof -
  have h: "set (map convertTypeToScala [NullKeyword, TypeReference ''Foo'' [], UndefinedKeyword])
     = {''Foo'', ''Null'', ''Unit''}"
    by (auto simp: typeMapping_def)
  from convertUnionType_nullable[OF h] h show ?thesis by simp
qed

section \<open>Properties of the emitters\<close>

subsection \<open>Results and de-duplicated lines\<close>

lemma collectResults_map_Inr:
  "collectResults (map f xs) = Inr ys \<Longrightarrow> length ys = length xs \<and> (\<forall>i < length xs. f (xs ! i) = Inr (ys ! i))"
proof (induction xs arbitrary: ys)
  case Nil
  then show ?case by simp
next
  case (Cons x xs)
  then show ?case
    by (auto split: sum.splits simp: nth_Cons split: nat.splits)
qed

lemma collectResults_set:
  assumes "collectResults (map f xs) = Inr ys" "y \<in> set ys"
  obtains x where "x \<in> set xs" "f x = Inr y"
proof -
  from assms(2) obtain i where i: "i < length ys" "ys ! i = y" by (auto simp: in_set_conv_nth)
  from collectResults_map_Inr[OF assms(1)] i have "i < length xs" "f (xs ! i) = Inr y" by auto
  then show ?thesis using that[of "xs ! i"] by simp
qed

lemma set_emit: "set (emit emitted ls) \<subseteq> WriteLine ` set ls"
  by (induction ls arbitrary: emitted) auto

lemma written_emit:
  "x \<in> set (emit emitted ls) \<Longrightarrow> s \<in> set (written x) \<Longrightarrow> s \<in> set ls"
  using set_emit[of emitted ls] by auto

lemma collectResults_total:
  "list_all (\<lambda>x. \<exists>y. f x = Inr y) xs \<Longrightarrow> \<exists>ys. collectResults (map f xs) = Inr ys"
  by (induction xs) auto

lemma moduleFunctionBinding_total:
  "function_name f \<noteq> None \<Longrightarrow> \<exists>l. moduleFunctionBinding f = Inr l"
  by (auto simp: moduleFunctionBinding_def Let_def)

lemma standaloneFunctionBinding_total:
  "function_name f \<noteq> None \<Longrightarrow> \<exists>l. standaloneFunctionBinding f = Inr l"
  by (auto simp: standaloneFunctionBinding_def)

lemma generateModuleObject_total:
  assumes "list_all (\<lambda>f. function_name f \<noteq> None) (exports_functions ex)"
  shows "\<exists>out. generateModuleObject moduleName ex = Inr out"
proof -
  from assms have "list_all (\<lambda>f. \<exists>l. moduleFunctionBinding f = Inr l) (exports_functions ex)"
    by (simp add: list_all_iff moduleFunctionBinding_total)
  then obtain ls where "collectResults (map moduleFunctionBinding (exports_functions ex)) = Inr ls"
    using collectResults_total by blast
  then show ?thesis by (simp add: generateModuleObject_def)
qed

lemma generateGlobalScopeObject_total:
  assumes "list_all (\<lambda>f. function_name f \<noteq> None) (exports_functions ex)"
  shows "\<exists>out. generateGlobalScopeObject packageName ex = Inr out"
proof -
  from assms have "list_all (\<lambda>f. \<exists>l. standaloneFunctionBinding f = Inr l) (exports_functions ex)"
    by (simp add: list_all_iff standaloneFunctionBinding_total)
  then obtain ls where "collectResults (map standaloneFunctionBinding (exports_functions ex)) = Inr ls"
    using collectResults_total by blast
  then show ?thesis by (simp add: generateGlobalScopeObject_def Let_def)
qed










subsection \<open>The global scope object of a lone function\<close>

text \<open>
  Claim C1 says that the global scope object of a file holds a callable binding for every
  top-level function, also when the file is a single exported function without an export
  assignment.  The code does otherwise on that input.  \<open>generateScalaOutput\<close> calls
  \<open>generateGlobalScopeObject\<close> only when the file has a type alias, an export assignment or a
  collected variable, so for the file \<^verbatim>\<open>export declare function foo(): void;\<close> no
  global scope object is written at all.  \<open>generateGlobalScopeObject\<close> itself, whose own
  guard does count functions, would have written the binding on the same collected exports.
\<close>

theorem lone_function_has_no_global_scope_object:
  "generateScalaOutput [exportedFoo] ''p'' =
     Inr [WriteLine [],
          WriteLine ''import scala.scalajs.js'',
          WriteLine ''import js.annotation._'',
          WriteLine ''import js.|'',
          WriteLine [],
          Write ''package p '',
          Block [SetIndentationLevel 0, NewLine]]
   \<and> generateGlobalScopeObject ''p''
        (foldl collectTopLevelExport emptyExports [exportedFoo]) =
     Inr [NewLine, GetIndentationLevel, SetIndentationLevel 0,
          Write ''@js.native'', NewLine, Write ''@JSGlobalScope'', NewLine,
          Write ''object P extends js.Object '',
          Block [WriteLine ''def foo(): Unit = js.native''],
          NewLine, RestoreIndentationLevel]"
  by (simp add: exportedFoo_def eval_defs)

subsection \<open>Quoting of identifiers\<close>












subsection \<open>The companion object of a class in a nested namespace\<close>

text \<open>
  Claim C4 says that the companion object of a class in a namespace is bound to the same
  path as the class, the full namespace path followed by the class name.  The code binds the
  class to the full path and the companion object to the last segment of the namespace only
  (\<^verbatim>\<open>namespace.split('.').pop()\<close>): in the namespace \<^verbatim>\<open>a.b\<close> the class
  \<^verbatim>\<open>Counter\<close> is bound to \<^verbatim>\<open>a.b.Counter\<close> and its companion object to
  \<^verbatim>\<open>b.Counter\<close>.
\<close>

theorem companion_object_binds_last_segment:
  "processClassDeclaration staticCounter ''a.b'' =
     [NewLine, GetIndentationLevel, SetIndentationLevel 0,
      Write ''@js.native'', NewLine,
      Write (''@JSGlobal('' @ dquote @ ''a.b.Counter'' @ dquote @ '')''), NewLine,
      Write ''class Counter extends js.Object '', Block [], NewLine,
      Write ''@js.native'', NewLine,
      Write (''@JSGlobal('' @ dquote @ ''b.Counter'' @ dquote @ '')''), NewLine,
      Write ''object Counter extends js.Object '',
      Block [WriteLine ''var count: Double = js.native''], NewLine,
      RestoreIndentationLevel]"
  by (simp add: staticCounter_def eval_defs)

subsection \<open>Nested type literals of an interface\<close>

text \<open>
  Claim C5 says that type literals nested in an interface property are expanded to nested
  traits at every depth.  The code expands two levels and hands the members of the second
  nested literal to \<open>processInterfaceMember\<close>, which maps a property typed by a further
  literal through \<open>convertTypeToScala\<close>: the property \<^verbatim>\<open>cert\<close> of the third level is
  rendered with the type \<open>js.Any\<close> and no trait \<^verbatim>\<open>Cert\<close> is written.
\<close>

theorem third_level_literal_degrades:
  "processInterfaceDeclaration deepConfig [] =
     [NewLine, GetIndentationLevel, SetIndentationLevel 0,
      Write ''@js.native'', NewLine,
      Write ''trait Config extends js.Object '',
      Block [WriteLine ''var server: Config.Server = js.native''],
      NewLine,
      Write ''object Config '',
      Block
        [Write ''@js.native'', NewLine,
         Write ''trait Server extends js.Object '',
         Block [WriteLine ''var tls: Server.Tls = js.native''],
         NewLine,
         Write ''object Server '',
         Block
           [Write ''@js.native'', NewLine,
            Write ''trait Tls extends js.Object '',
            Block [WriteLine ''var cert: js.Any = js.native'']]],
      NewLine, RestoreIndentationLevel]"
  by (simp add: deepConfig_def eval_defs)

subsection \<open>The head of the output\<close>




subsection \<open>Private constructors\<close>

text \<open>
  Claim C9 says that no private or protected member, constructors included, contributes text
  to the output.  Private and protected properties and methods are skipped, but the loop
  over constructors tests only the number of parameters: the private constructor of
  \<^verbatim>\<open>Registry\<close> is written as a secondary constructor and makes the primary
  constructor \<^verbatim>\<open>protected ()\<close>.
\<close>

theorem private_constructor_is_emitted:
  "processClassDeclaration privateCtor [] =
     [NewLine, GetIndentationLevel, SetIndentationLevel 0,
      Write ''@js.native'', NewLine,
      Write ''@JSGlobal'', NewLine,
      Write ''class Registry protected () extends js.Object '',
      Block [WriteLine ''def this(size: Double) = this()''], NewLine,
      RestoreIndentationLevel]"
  by (simp add: privateCtor_def eval_defs)

subsection \<open>Variables of a scope\<close>

lemma variableBinding_keyword:
  "variableBinding v =
     (if var_parentConst v then ''val'' else ''def'') @ '' '' @ var_name v @ '': ''
       @ convertOptionalType (var_type v) ''js.Any'' @ '' = js.native''"
  by (simp add: variableBinding_def)

lemma variableBinding_not_var: "take 4 (variableBinding v) \<noteq> ''var ''"
  by (simp add: variableBinding_def)

lemma typeAliasBinding_not_var: "take 4 (typeAliasBinding a) \<noteq> ''var ''"
  by (simp add: typeAliasBinding_def Let_def)

lemma globalFunctionBinding_not_var: "take 4 (globalFunctionBinding n f) \<noteq> ''var ''"
  by (simp add: globalFunctionBinding_def Let_def)

lemma standaloneFunctionBinding_not_var:
  "standaloneFunctionBinding f = Inr l \<Longrightarrow> take 4 l \<noteq> ''var ''"
  by (auto simp: standaloneFunctionBinding_def globalFunctionBinding_not_var split: option.splits)

lemma moduleFunctionBinding_not_var:
  "moduleFunctionBinding f = Inr l \<Longrightarrow> take 4 l \<noteq> ''var ''"
  by (auto simp: moduleFunctionBinding_def Let_def split: option.splits)

lemma exportAssignmentBinding_not_var:
  "l \<in> set (exportAssignmentBinding fs e) \<Longrightarrow> take 4 l \<noteq> ''var ''"
  by (cases e) (auto simp: globalFunctionBinding_not_var split: option.splits)

lemma module_object_texts:
  assumes "generateModuleObject moduleName ex = Inr out" "s \<in> set (writtenTexts out)"
  shows "take 4 s \<noteq> ''var ''"
proof (cases "length (exports_types ex) = 0 \<and> length (exports_functions ex) = 0
        \<and> length (exports_variables ex) = 0")
  case True
  with assms show ?thesis by (simp add: generateModuleObject_def writtenTexts_def)
next
  case False
  with assms(1) obtain functionLines where
    fl: "collectResults (map moduleFunctionBinding (exports_functions ex)) = Inr functionLines"
    and out: "out = [NewLine, GetIndentationLevel, SetIndentationLevel 0,
               Write ''@js.native'', NewLine,
               Write (''@JSGlobal('' @ dquote @ moduleName @ dquote @ '')''), NewLine,
               Write (''object '' @ capitalize moduleName @ '' extends js.Object ''),
               Block (map (\<lambda>typeAlias. WriteLine (typeAliasBinding typeAlias))
                        (exports_types ex)
                 @ map (\<lambda>variable. WriteLine (variableBinding variable))
                        (exports_variables ex)
                 @ map WriteLine functionLines),
               NewLine, RestoreIndentationLevel]"
    by (auto simp: generateModuleObject_def split: sum.splits if_splits)
  from assms(2) out consider
      "s = ''@js.native''"
    | "s = ''@JSGlobal('' @ dquote @ moduleName @ dquote @ '')''"
    | "s = ''object '' @ capitalize moduleName @ '' extends js.Object ''"
    | a where "s = typeAliasBinding a"
    | v where "s = variableBinding v"
    | "s \<in> set functionLines"
    by (auto simp: writtenTexts_def comp_def)
  then show ?thesis
  proof cases
    case 6
    with fl obtain f where "moduleFunctionBinding f = Inr s"
      by (auto elim: collectResults_set)
    then show ?thesis by (rule moduleFunctionBinding_not_var)
  qed (simp_all add: variableBinding_not_var typeAliasBinding_not_var)
qed

lemma global_object_texts:
  assumes "generateGlobalScopeObject packageName ex = Inr out" "s \<in> set (writtenTexts out)"
  shows "take 4 s \<noteq> ''var ''"
proof (cases "length (exports_types ex) = 0 \<and> length (exports_functions ex) = 0
        \<and> length (exports_exportAssignments ex) = 0 \<and> length (exports_variables ex) = 0")
  case True
  with assms show ?thesis by (simp add: generateGlobalScopeObject_def writtenTexts_def)
next
  case False
  define forwarded where "forwarded = concat (map (exportAssignmentBinding (exports_functions ex))
                                    (exports_exportAssignments ex))"
  from False assms(1) obtain functionLines where
    fl: "collectResults (map standaloneFunctionBinding (exports_functions ex)) = Inr functionLines"
    and out: "out = [NewLine, GetIndentationLevel, SetIndentationLevel 0,
                   Write ''@js.native'', NewLine,
                   Write ''@JSGlobalScope'', NewLine,
                   Write (''object '' @ capitalize packageName @ '' extends js.Object ''),
                   Block (map (\<lambda>typeAlias. WriteLine (typeAliasBinding typeAlias))
                            (exports_types ex)
                     @ emit [] forwarded
                     @ map (\<lambda>variable. WriteLine (variableBinding variable))
                            (exports_variables ex)
                     @ emit (newSet [] forwarded) functionLines),
                   NewLine, RestoreIndentationLevel]"
    by (auto simp: generateGlobalScopeObject_def forwarded_def Let_def split: sum.splits if_splits)
  from assms(2) out consider
      "s = ''@js.native''"
    | "s = ''@JSGlobalScope''"
    | "s = ''object '' @ capitalize packageName @ '' extends js.Object ''"
    | a where "s = typeAliasBinding a"
    | v where "s = variableBinding v"
    | "s \<in> set forwarded"
    | "s \<in> set functionLines"
    by (auto simp: writtenTexts_def comp_def dest: written_emit)
  then show ?thesis
  proof cases
    case 6
    then show ?thesis by (auto simp: forwarded_def exportAssignmentBinding_not_var)
  next
    case 7
    with fl obtain f where "standaloneFunctionBinding f = Inr s"
      by (auto elim: collectResults_set)
    then show ?thesis by (rule standaloneFunctionBinding_not_var)
  qed (simp_all add: variableBinding_not_var typeAliasBinding_not_var)
qed

lemma module_object_variable:
  assumes "generateModuleObject moduleName ex = Inr out" "v \<in> set (exports_variables ex)"
  shows "variableBinding v \<in> set (writtenTexts out)"
proof -
  from assms(2) have "length (exports_variables ex) \<noteq> 0" by auto
  with assms show ?thesis
    by (auto simp: generateModuleObject_def writtenTexts_def split: sum.splits if_splits)
qed

lemma global_object_variable:
  assumes "generateGlobalScopeObject packageName ex = Inr out" "v \<in> set (exports_variables ex)"
  shows "variableBinding v \<in> set (writtenTexts out)"
proof -
  from assms(2) have "length (exports_variables ex) \<noteq> 0" by auto
  with assms show ?thesis
    by (auto simp: generateGlobalScopeObject_def writtenTexts_def Let_def split: sum.splits if_splits)
qed

text \<open>
  Claim C10.  Whenever a module companion object or the global scope object is produced,
  every collected variable contributes the line that starts with \<open>val\<close> when its
  declaration list is \<^verbatim>\<open>const\<close> and with \<open>def\<close> otherwise, and no string written for
  the object starts with \<open>var\<close>.  Both objects are produced whenever the collected
  functions are named.
\<close>

theorem scope_variables_read_only:
  "(\<forall>out. generateModuleObject moduleName ex = Inr out
           \<or> generateGlobalScopeObject packageName ex = Inr out \<longrightarrow>
      (\<forall>v \<in> set (exports_variables ex).
          (if var_parentConst v then ''val'' else ''def'') @ '' '' @ var_name v @ '': ''
            @ convertOptionalType (var_type v) ''js.Any'' @ '' = js.native''
          \<in> set (writtenTexts out))
      \<and> (\<forall>s \<in> set (writtenTexts out). take 4 s \<noteq> ''var ''))
   \<and> (list_all (\<lambda>f. function_name f \<noteq> None) (exports_functions ex) \<longrightarrow>
        (\<exists>out. generateModuleObject moduleName ex = Inr out)
        \<and> (\<exists>out. generateGlobalScopeObject packageName ex = Inr out))"
proof (intro conjI allI impI ballI)
  fix out v
  assume "generateModuleObject moduleName ex = Inr out
           \<or> generateGlobalScopeObject packageName ex = Inr out"
    and "v \<in> set (exports_variables ex)"
  then have "variableBinding v \<in> set (writtenTexts out)"
    by (auto intro: module_object_variable global_object_variable)
  then show "(if var_parentConst v then ''val'' else ''def'') @ '' '' @ var_name v @ '': ''
            @ convertOptionalType (var_type v) ''js.Any'' @ '' = js.native''
          \<in> set (writtenTexts out)"
    by (simp add: variableBinding_keyword)
next
  fix out s
  assume "generateModuleObject moduleName ex = Inr out
           \<or> generateGlobalScopeObject packageName ex = Inr out"
    and "s \<in> set (writtenTexts out)"
  then show "take 4 s \<noteq> ''var ''"
    by (auto dest: module_object_texts global_object_texts)
next
  assume "list_all (\<lambda>f. function_name f \<noteq> None) (exports_functions ex)"
  then show "\<exists>out. generateModuleObject moduleName ex = Inr out"
    by (rule generateModuleObject_total)
next
  assume "list_all (\<lambda>f. function_name f \<noteq> None) (exports_functions ex)"
  then show "\<exists>out. generateGlobalScopeObject packageName ex = Inr out"
    by (rule generateGlobalScopeObject_total)
qed

theorem scope_variables_read_only_witness:
  "generateModuleObject ''lib'' sampleExports =
     Inr [NewLine, GetIndentationLevel, SetIndentationLevel 0,
          Write ''@js.native'', NewLine,
          Write (''@JSGlobal('' @ dquote @ ''lib'' @ dquote @ '')''), NewLine,
          Write ''object Lib extends js.Object '',
          Block [WriteLine ''val version: String = js.native'',
                 WriteLine ''def counter: Double = js.native''],
          NewLine, RestoreIndentationLevel]
   \<and> generateGlobalScopeObject ''lib'' sampleExports =
     Inr [NewLine, GetIndentationLevel, SetIndentationLevel 0,
          Write ''@js.native'', NewLine,
          Write ''@JSGlobalScope'', NewLine,
          Write ''object Lib extends js.Object '',
          Block [WriteLine ''val version: String = js.native'',
                 WriteLine ''def counter: Double = js.native''],
          NewLine, RestoreIndentationLevel]
   \<and> list_all (\<lambda>s. take 4 s \<noteq> ''var '') (writtenTexts
         [NewLine, GetIndentationLevel, SetIndentationLevel 0,
          Write ''@js.native'', NewLine,
          Write ''@JSGlobalScope'', NewLine,
          Write ''object Lib extends js.Object '',
          Block [WriteLine ''val version: String = js.native'',
                 WriteLine ''def counter: Double = js.native''],
          NewLine, RestoreIndentationLevel])"
  using scope_variables_read_only[of "''lib''" sampleExports "''lib''"]
  by (simp add: sampleExports_def writtenTexts_def eval_defs)

end
